theory Spec2Isabelle
  imports Complex_Main
begin

section \<open>Transcript entries and the handoff transcript manager\<close>

text \<open>
  A chat item of the conversation transcript, as \<^verbatim>\<open>_truncate_chat_ctx\<close> and
  \<^verbatim>\<open>on_enter\<close> of \<^verbatim>\<open>BaseRestaurantAgent\<close> (src/assistant.py) read it: the attributes
  \<^verbatim>\<open>id\<close>, \<^verbatim>\<open>type\<close> and, for a message, \<^verbatim>\<open>role\<close>. The three values of \<^verbatim>\<open>type\<close> the
  source compares against are the three constructors of \<open>item_kind\<close>. The source reads
  \<^verbatim>\<open>role\<close> only behind the test \<^verbatim>\<open>item.type == "message"\<close>; for the other two kinds the
  field \<open>item_role\<close> is never inspected.
\<close>

datatype item_kind = message | function_call | function_call_output

record chat_item =
  item_id :: string
  item_type :: item_kind
  item_role :: string
  item_content :: string

text \<open>
  The nested function \<^verbatim>\<open>_valid_item\<close>, with the two flags of the enclosing call:
  \<^verbatim>\<open>
  if not keep_system_message and item.type == "message" and item.role == "system":
      return False
  if not keep_function_call and item.type in ["function_call", "function_call_output"]:
      return False
  return True
  \<close>
\<close>

definition valid_item :: "bool \<Rightarrow> bool \<Rightarrow> chat_item \<Rightarrow> bool" where
  "valid_item keep_system_message keep_function_call item =
     (if \<not> keep_system_message \<and> item_type item = message \<and> item_role item = ''system''
      then False
      else if \<not> keep_function_call
              \<and> (item_type item = function_call \<or> item_type item = function_call_output)
      then False
      else True)"

text \<open>
  The collecting loop, run over \<^verbatim>\<open>reversed(items)\<close>:
  \<^verbatim>\<open>
  for item in reversed(items):
      if _valid_item(item):
          new_items.append(item)
      if len(new_items) >= keep_last_n_messages:
          break
  \<close>
  The length test comes after the append, so the loop inspects at least one item even
  when \<^verbatim>\<open>keep_last_n_messages\<close> is zero or negative (a Python \<^verbatim>\<open>int\<close>, hence \<open>int\<close>).
\<close>

fun collect_items :: "int \<Rightarrow> bool \<Rightarrow> bool \<Rightarrow> chat_item list \<Rightarrow> chat_item list \<Rightarrow> chat_item list" where
  "collect_items keep_last_n_messages ks kf [] new_items = new_items"
| "collect_items keep_last_n_messages ks kf (item # rest) new_items =
     (let new_items' = (if valid_item ks kf item then new_items @ [item] else new_items)
      in if int (length new_items') \<ge> keep_last_n_messages then new_items'
         else collect_items keep_last_n_messages ks kf rest new_items')"

definition is_function_item :: "chat_item \<Rightarrow> bool" where
  "is_function_item item =
     (item_type item = function_call \<or> item_type item = function_call_output)"

text \<open>
  \<^verbatim>\<open>
  while new_items and new_items[0].type in ["function_call", "function_call_output"]:
      new_items.pop(0)
  \<close>
\<close>

fun remove_orphans :: "chat_item list \<Rightarrow> chat_item list" where
  "remove_orphans [] = []"
| "remove_orphans (item # rest) =
     (if is_function_item item then remove_orphans rest else item # rest)"

text \<open>
  The list before the orphan removal: \<^verbatim>\<open>new_items[::-1]\<close> after the loop.
\<close>

definition retained_window :: "chat_item list \<Rightarrow> int \<Rightarrow> bool \<Rightarrow> bool \<Rightarrow> chat_item list" where
  "retained_window items keep_last_n_messages keep_system_message keep_function_call =
     rev (collect_items keep_last_n_messages keep_system_message keep_function_call
            (rev items) [])"

definition truncate_chat_ctx :: "chat_item list \<Rightarrow> int \<Rightarrow> bool \<Rightarrow> bool \<Rightarrow> chat_item list" where
  "truncate_chat_ctx items keep_last_n_messages keep_system_message keep_function_call =
     remove_orphans
       (retained_window items keep_last_n_messages keep_system_message keep_function_call)"

text \<open>
  The merge step of \<^verbatim>\<open>on_enter\<close>, with \<open>target\<close> for \<^verbatim>\<open>chat_ctx.items\<close> and \<open>source\<close> for
  the truncated items of the previous agent:
  \<^verbatim>\<open>
  existing_ids = {item.id for item in chat_ctx.items}
  items_copy = [item for item in items_copy if item.id not in existing_ids]
  chat_ctx.items.extend(items_copy)
  \<close>
  The set of identities is computed once, from the target alone.
\<close>

definition merge_items :: "chat_item list \<Rightarrow> chat_item list \<Rightarrow> chat_item list" where
  "merge_items target source =
     (let existing_ids = set (map item_id target)
      in target @ filter (\<lambda>item. item_id item \<notin> existing_ids) source)"

section \<open>Session state\<close>

text \<open>
  An entry of \<^verbatim>\<open>UserData.current_order\<close>. The only writer of that list is
  \<^verbatim>\<open>OrderAgent.add_item\<close>, which appends the dictionary
  \<^verbatim>\<open>{"item": item, "quantity": quantity}\<close>; the record has exactly these two keys.
  The quantity is a Python \<^verbatim>\<open>int\<close> supplied by the caller of the tool and is not
  checked, so it is an \<open>int\<close>.
\<close>

record order_entry =
  entry_item :: string
  entry_quantity :: int

text \<open>
  The dataclass \<^verbatim>\<open>UserData\<close> (src/app/models/restaurant.py), with the fields the tools
  below read or write. The \<^verbatim>\<open>float\<close> field \<^verbatim>\<open>order_total\<close> is a \<open>real\<close>: the tools
  below perform no arithmetic on it.
  Not represented: the card fields, \<^verbatim>\<open>caller_number\<close>, \<^verbatim>\<open>call_start_time\<close>,
  \<^verbatim>\<open>prev_agent\<close>, \<^verbatim>\<open>agents\<close>, \<^verbatim>\<open>order_history\<close>, \<^verbatim>\<open>customer_preferences\<close>,
  \<^verbatim>\<open>authenticated\<close> and \<^verbatim>\<open>session_id\<close>.
\<close>

record UserData =
  customer_name :: string
  customer_phone :: string
  customer_email :: string
  current_order :: "order_entry list"
  order_total :: real
  special_instructions :: string
  reservation_date :: string
  reservation_time :: string
  party_size :: int
  payment_method :: string
  call_id :: string
  intent :: string
  loyalty_points :: int

text \<open>The field defaults of the dataclass: what \<^verbatim>\<open>UserData()\<close> constructs.\<close>

definition UserData_default :: UserData where
  "UserData_default =
     \<lparr>customer_name = [], customer_phone = [], customer_email = [],
      current_order = [], order_total = 0, special_instructions = [],
      reservation_date = [], reservation_time = [], party_size = 0,
      payment_method = ''cash'', call_id = [], intent = [], loyalty_points = 0\<rparr>"

text \<open>
  What a function tool hands back to the session. The source returns \<^verbatim>\<open>None\<close>, a
  \<^verbatim>\<open>str\<close>, or a newly constructed agent; these are \<open>NoOp\<close>, \<open>Advisory\<close> and
  \<open>Handoff\<close> (naming the class of the agent returned).
\<close>

datatype agent_tag = IntentClassifierAgent | OrderAgent | ReservationAgent | ConfirmationAgent

datatype tool_result = NoOp | Advisory string | Handoff agent_tag

text \<open>
  Modelled from the spec: the handoff orchestrator of section 4.5, which in the repository
  is the session object of the agent framework and has no source under src/. "NoOp and
  Advisory leave the active role unchanged"; "Handoff(tag)" makes \<open>tag\<close> the active role.
\<close>

definition active_role_after :: "agent_tag \<Rightarrow> tool_result \<Rightarrow> agent_tag" where
  "active_role_after current res =
     (case res of NoOp \<Rightarrow> current | Advisory text \<Rightarrow> current | Handoff tag \<Rightarrow> tag)"

datatype py_error = TypeError | ValueError

section \<open>Phone normalisation\<close>

text \<open>
  The built-in \<^verbatim>\<open>str.isdigit\<close> is a parameter \<open>isdigit\<close> of the functions that filter
  with it: which characters count as digits is a table of the language, not code of the
  repository, and it holds of more than the ten decimal digits. Nothing proved below
  depends on the table.

  For evaluation, \<open>str_isdigit\<close> is that table on the characters a \<open>char\<close> can hold, read
  as the code points below 256: the ten decimal digits and the three superscript digits
  U+00B2, U+00B3 and U+00B9.
\<close>

definition str_isdigit :: "char \<Rightarrow> bool" where
  "str_isdigit c = (c \<in> set ''0123456789'' \<or> c = CHR 0xB2 \<or> c = CHR 0xB3 \<or> c = CHR 0xB9)"

text \<open>
  Lines 27 to 31 of \<^verbatim>\<open>update_customer_phone\<close> (src/shared_tools.py): the value of
  \<^verbatim>\<open>clean_phone\<close> when it is assigned to the session.
  \<^verbatim>\<open>
  clean_phone = ''.join(filter(str.isdigit, phone))
  if len(clean_phone) == 10:
      clean_phone = f"+1{clean_phone}"
  elif len(clean_phone) == 11 and clean_phone.startswith('1'):
      clean_phone = f"+{clean_phone}"
  \<close>
\<close>

definition clean_phone_number :: "(char \<Rightarrow> bool) \<Rightarrow> string \<Rightarrow> string" where
  "clean_phone_number isdigit phone =
     (let clean_phone = filter isdigit phone
      in if length clean_phone = 10 then ''+1'' @ clean_phone
         else if length clean_phone = 11 \<and> take 1 clean_phone = ''1'' then ''+'' @ clean_phone
         else clean_phone)"

text \<open>
  The customer record \<^verbatim>\<open>get_customer_data\<close> returns, with the two keys whose values
  \<^verbatim>\<open>update_customer_phone\<close> copies into the fields of \<open>UserData\<close> above; a key may be
  absent. The lookup is a parameter: \<open>None\<close> stands for the empty dictionary, which
  \<^verbatim>\<open>FirebaseManager.get_customer_data\<close> returns for an unknown customer and on any error.
\<close>

record customer_data =
  cd_name :: "string option"
  cd_loyalty_points :: "int option"

text \<open>
  The state \<^verbatim>\<open>update_customer_phone\<close> leaves behind (its reply text is not modelled):
  the assignment \<^verbatim>\<open>context.userdata.customer_phone = clean_phone\<close>, then the history
  lookup under the cleaned number, \<^verbatim>\<open>loyalty_points = customer_data.get('loyalty_points', 0)\<close>
  and the name taken from the record when the session has none.
\<close>

definition update_customer_phone ::
    "(char \<Rightarrow> bool) \<Rightarrow> (string \<Rightarrow> customer_data option) \<Rightarrow> UserData \<Rightarrow> string
       \<Rightarrow> UserData" where
  "update_customer_phone isdigit get_customer_data ud phone =
     (let clean_phone = clean_phone_number isdigit phone;
          ud1 = ud\<lparr>customer_phone := clean_phone\<rparr>
      in case get_customer_data clean_phone of
           None \<Rightarrow> ud1
         | Some cd \<Rightarrow>
             (let ud2 = ud1\<lparr>loyalty_points :=
                              (case cd_loyalty_points cd of None \<Rightarrow> 0 | Some p \<Rightarrow> p)\<rparr>
              in case cd_name cd of
                   None \<Rightarrow> ud2
                 | Some n \<Rightarrow>
                     if customer_name ud2 = [] \<and> n \<noteq> [] then ud2\<lparr>customer_name := n\<rparr>
                     else ud2))"

text \<open>
  \<^verbatim>\<open>SipCallHandler._normalize_phone\<close> (src/error_handlers.py), which normalises the
  numbers of a SIP call and does not touch the session: the same two rules, but the
  fall-through returns the argument itself.
\<close>

definition normalize_phone :: "(char \<Rightarrow> bool) \<Rightarrow> string \<Rightarrow> string" where
  "normalize_phone isdigit phone =
     (if phone = [] then ''unknown''
      else let clean = filter isdigit phone
           in if length clean = 10 then ''+1'' @ clean
              else if length clean = 11 \<and> take 1 clean = ''1'' then ''+'' @ clean
              else phone)"

section \<open>Order and reservation tools\<close>

text \<open>
  \<^verbatim>\<open>OrderAgent._handoff_if_done\<close>: a hint once name, phone and a non-empty draft are
  present, \<^verbatim>\<open>None\<close> otherwise. The agent's \<^verbatim>\<open>self.userdata\<close> and the tool's
  \<^verbatim>\<open>context.userdata\<close> are the same object (every agent is constructed with
  \<^verbatim>\<open>userdata=context.userdata\<close>), so one state is threaded through.
\<close>

definition OrderAgent_handoff_if_done :: "UserData \<Rightarrow> tool_result" where
  "OrderAgent_handoff_if_done ud =
     (if customer_name ud \<noteq> [] \<and> customer_phone ud \<noteq> [] \<and> current_order ud \<noteq> []
      then Advisory ''You may now confirm the order.''
      else NoOp)"

definition add_item :: "UserData \<Rightarrow> string \<Rightarrow> int \<Rightarrow> tool_result \<times> UserData" where
  "add_item ud item_name qty =
     (let ud' = ud\<lparr>current_order :=
                     current_order ud @ [\<lparr>entry_item = item_name, entry_quantity = qty\<rparr>]\<rparr>
      in (OrderAgent_handoff_if_done ud', ud'))"

definition set_payment_method :: "UserData \<Rightarrow> string \<Rightarrow> tool_result \<times> UserData" where
  "set_payment_method ud method =
     (let ud' = ud\<lparr>payment_method := method\<rparr>
      in (OrderAgent_handoff_if_done ud', ud'))"

definition finalize_order :: "UserData \<Rightarrow> tool_result \<times> UserData" where
  "finalize_order ud = (Handoff ConfirmationAgent, ud)"

text \<open>
  The tools of \<^verbatim>\<open>OrderAgent\<close> that write the draft order or the payment selector, and
  their application in sequence to a session.
\<close>

datatype draft_mutation = AddItem string int | SetPaymentMethod string

fun apply_mutation :: "UserData \<Rightarrow> draft_mutation \<Rightarrow> UserData" where
  "apply_mutation ud (AddItem item_name qty) = snd (add_item ud item_name qty)"
| "apply_mutation ud (SetPaymentMethod method) = snd (set_payment_method ud method)"

fun apply_mutations :: "UserData \<Rightarrow> draft_mutation list \<Rightarrow> UserData" where
  "apply_mutations ud [] = ud"
| "apply_mutations ud (m # ms) = apply_mutations (apply_mutation ud m) ms"

text \<open>
  A draft entry carries no price. The one place where the source prices a draft line is
  the conversion in \<^verbatim>\<open>confirm_order\<close>, which passes \<^verbatim>\<open>unit_price=0.0\<close> for every
  entry; \<open>draft_total\<close> is the sum of unit price times quantity over the draft under
  that price.
\<close>

definition entry_unit_price :: "order_entry \<Rightarrow> real" where
  "entry_unit_price e = 0"

definition draft_total :: "UserData \<Rightarrow> real" where
  "draft_total ud =
     sum_list (map (\<lambda>e. entry_unit_price e * real_of_int (entry_quantity e)) (current_order ud))"

text \<open>\<^verbatim>\<open>ReservationAgent._handoff_if_done\<close> and \<^verbatim>\<open>set_reservation_details\<close>.\<close>

definition ReservationAgent_handoff_if_done :: "UserData \<Rightarrow> tool_result" where
  "ReservationAgent_handoff_if_done ud =
     (if customer_name ud \<noteq> [] \<and> customer_phone ud \<noteq> [] \<and> reservation_date ud \<noteq> []
         \<and> reservation_time ud \<noteq> [] \<and> party_size ud > 0
      then Advisory ''You can now use `confirm_reservation` to save this.''
      else NoOp)"

definition set_reservation_details ::
    "UserData \<Rightarrow> string \<Rightarrow> string \<Rightarrow> int \<Rightarrow> tool_result \<times> UserData" where
  "set_reservation_details ud date time new_party_size =
     (let ud' = ud\<lparr>reservation_date := date, reservation_time := time,
                   party_size := new_party_size\<rparr>
      in (ReservationAgent_handoff_if_done ud', ud'))"

section \<open>Orders, the store and the confirmation tools\<close>

text \<open>
  The dataclass \<^verbatim>\<open>OrderItem\<close> (src/app/models/restaurant.py). Its first four fields
  have no default; \<^verbatim>\<open>modifications\<close> defaults to \<^verbatim>\<open>None\<close>, which
  \<^verbatim>\<open>__post_init__\<close> replaces by the empty list.
\<close>

record OrderItem =
  menu_item_id :: string
  menu_item_name :: string
  quantity :: int
  unit_price :: real
  modifications :: "string list"

text \<open>
  A call of the generated constructor by keyword, each parameter given (\<open>Some\<close>) or left
  out (\<open>None\<close>). Leaving out a parameter that has no default raises \<^verbatim>\<open>TypeError\<close>.
\<close>

definition OrderItem_init ::
    "string option \<Rightarrow> string option \<Rightarrow> int option \<Rightarrow> real option \<Rightarrow> string list option
       \<Rightarrow> py_error + OrderItem" where
  "OrderItem_init arg_id arg_name arg_quantity arg_unit_price arg_modifications =
     (case arg_id of None \<Rightarrow> Inl TypeError | Some i \<Rightarrow>
      case arg_name of None \<Rightarrow> Inl TypeError | Some n \<Rightarrow>
      case arg_quantity of None \<Rightarrow> Inl TypeError | Some q \<Rightarrow>
      case arg_unit_price of None \<Rightarrow> Inl TypeError | Some p \<Rightarrow>
        Inr \<lparr>menu_item_id = i, menu_item_name = n, quantity = q, unit_price = p,
             modifications = (case arg_modifications of None \<Rightarrow> [] | Some ms \<Rightarrow> ms)\<rparr>)"

text \<open>
  The property \<^verbatim>\<open>OrderItem.total_price\<close>, \<^verbatim>\<open>self.unit_price * self.quantity\<close>. The
  product is taken in \<open>real\<close>, without the rounding of a \<^verbatim>\<open>float\<close> product; the two agree
  for the unit price 0, the only one \<^verbatim>\<open>confirm_order\<close> passes.
\<close>

definition total_price :: "OrderItem \<Rightarrow> real" where
  "total_price oi = unit_price oi * real_of_int (quantity oi)"

text \<open>
  The dataclass \<^verbatim>\<open>CustomerOrder\<close>. Fields that share a name with a field of
  \<open>UserData\<close> carry the prefix \<open>order_\<close>. A \<^verbatim>\<open>datetime\<close> is a count of minutes, so
  that adding \<^verbatim>\<open>timedelta(minutes=m)\<close> is adding \<open>m\<close>.
\<close>

record CustomerOrder =
  order_id :: string
  order_customer_phone :: string
  order_customer_name :: string
  order_items :: "OrderItem list"
  order_time :: int
  status :: string
  estimated_ready_time :: int
  total_amount :: real
  order_payment_method :: string
  order_special_instructions :: string
  order_call_id :: string
  agent_id :: string

text \<open>
  Construction as \<^verbatim>\<open>confirm_order\<close> calls it, without \<^verbatim>\<open>estimated_ready_time\<close> and
  \<^verbatim>\<open>total_amount\<close>, followed by \<^verbatim>\<open>__post_init__\<close>:
  \<^verbatim>\<open>
  max_prep_time = max([20, len(self.items) * 5])
  self.estimated_ready_time = self.order_time + timedelta(minutes=max_prep_time)
  self.total_amount = sum(item.total_price for item in self.items)
  \<close>
\<close>

definition CustomerOrder_init ::
    "string \<Rightarrow> string \<Rightarrow> string \<Rightarrow> OrderItem list \<Rightarrow> int \<Rightarrow> string \<Rightarrow> string \<Rightarrow> string
       \<Rightarrow> string \<Rightarrow> string \<Rightarrow> CustomerOrder" where
  "CustomerOrder_init new_id phone name its now st method cid aid instructions =
     \<lparr>order_id = new_id, order_customer_phone = phone, order_customer_name = name,
      order_items = its, order_time = now, status = st,
      estimated_ready_time = now + max 20 (int (length its) * 5),
      total_amount = sum_list (map total_price its),
      order_payment_method = method, order_special_instructions = instructions,
      order_call_id = cid, agent_id = aid\<rparr>"

text \<open>The dictionary \<^verbatim>\<open>save_reservation\<close> writes.\<close>

record reservation_data =
  res_id :: string
  res_customer_name :: string
  res_customer_phone :: string
  res_reservation_date :: string
  res_reservation_time :: string
  res_party_size :: int
  res_created_at :: int
  res_status :: string
  res_call_id :: string

text \<open>
  The store behind \<^verbatim>\<open>FirebaseManager\<close> (src/manager.py), as far as the confirmation
  tools reach it: the documents written to the \<^verbatim>\<open>orders\<close> and \<^verbatim>\<open>reservations\<close>
  collections, in the order written; the in-memory menu cache \<^verbatim>\<open>menu_items\<close>, reduced
  to the price of each item id; and \<open>writes_succeed\<close>, the one thing that is not code of
  the repository: whether a write to the database goes through or raises.
\<close>

record firebase =
  orders :: "CustomerOrder list"
  reservations :: "reservation_data list"
  menu_items :: "(string \<times> real) list"
  writes_succeed :: bool

text \<open>
  \<^verbatim>\<open>FirebaseManager.create_order\<close>: the write inside \<^verbatim>\<open>try\<close>, \<^verbatim>\<open>return True\<close> after it,
  \<^verbatim>\<open>return False\<close> from \<^verbatim>\<open>except Exception\<close>. No exception leaves the method. (The
  customer record it also updates is not represented; that update has a handler of its
  own. The analytics update is a coroutine the method never awaits.)
\<close>

definition create_order :: "firebase \<Rightarrow> CustomerOrder \<Rightarrow> bool \<times> firebase" where
  "create_order fb order =
     (if writes_succeed fb then (True, fb\<lparr>orders := orders fb @ [order]\<rparr>)
      else (False, fb))"

text \<open>
  \<^verbatim>\<open>FirebaseManager.save_reservation\<close>:
  \<^verbatim>\<open>
  try:
      reservation_data = {...}
      await self.db.collection('reservations').add(reservation_data)
      return True
  except Exception as e:
      return False
  \<close>
  \<^verbatim>\<open>self.db\<close> is the synchronous client of \<^verbatim>\<open>firestore.client()\<close>. Its \<^verbatim>\<open>add\<close> either
  raises, or writes the document and returns a tuple; \<^verbatim>\<open>await\<close> applied to the tuple
  raises \<^verbatim>\<open>TypeError\<close>. Either way control reaches the handler, so that the method
  returns \<^verbatim>\<open>False\<close> also after a write that went through, and \<^verbatim>\<open>return True\<close> is not
  reached.
\<close>

definition save_reservation :: "firebase \<Rightarrow> string \<Rightarrow> int \<Rightarrow> UserData \<Rightarrow> bool \<times> firebase" where
  "save_reservation fb new_id now ud =
     (if writes_succeed fb
      then (False, fb\<lparr>reservations := reservations fb @
              [\<lparr>res_id = new_id, res_customer_name = customer_name ud,
                res_customer_phone = customer_phone ud,
                res_reservation_date = reservation_date ud,
                res_reservation_time = reservation_time ud,
                res_party_size = party_size ud, res_created_at = now,
                res_status = ''confirmed'', res_call_id = call_id ud\<rparr>]\<rparr>)
      else (False, fb))"

text \<open>
  The conversion loop of \<^verbatim>\<open>ConfirmationAgent.confirm_order\<close> (src/assistant.py):
  \<^verbatim>\<open>
  for item_data in context.userdata.current_order:
      order_item = OrderItem(
          menu_item_id=item_data.get('item', ''),
          quantity=item_data.get('quantity', 1),
          unit_price=0.0,  # You'll need to look up the actual price
          modifications=item_data.get('modifications', [])
      )
      order_items.append(order_item)
  \<close>
  The call passes no \<^verbatim>\<open>menu_item_name\<close>. An exception raised by the constructor ends
  the loop.
\<close>

fun make_order_items :: "order_entry list \<Rightarrow> py_error + OrderItem list" where
  "make_order_items [] = Inr []"
| "make_order_items (item_data # rest) =
     (case OrderItem_init (Some (entry_item item_data)) None
             (Some (entry_quantity item_data)) (Some 0) (Some []) of
        Inl e \<Rightarrow> Inl e
      | Inr order_item \<Rightarrow>
          (case make_order_items rest of
             Inl e \<Rightarrow> Inl e
           | Inr order_items' \<Rightarrow> Inr (order_item # order_items')))"

text \<open>
  \<^verbatim>\<open>ConfirmationAgent.confirm_order\<close>. The whole body is inside \<^verbatim>\<open>try\<close>; any exception
  is answered by the text of the \<^verbatim>\<open>except Exception\<close> branch. The value
  \<^verbatim>\<open>create_order\<close> returns is not looked at. \<open>new_id\<close> and \<open>now\<close> stand for
  \<^verbatim>\<open>str(uuid.uuid4())\<close> and \<^verbatim>\<open>datetime.now()\<close>. \<^verbatim>\<open>UserData\<close> has no attribute
  \<^verbatim>\<open>agent_id\<close>, so \<^verbatim>\<open>getattr(context.userdata, 'agent_id', '')\<close> is the empty string.
  The result is the tool's reply, the session state and the store afterwards.
\<close>

definition confirm_order ::
    "firebase \<Rightarrow> string \<Rightarrow> int \<Rightarrow> UserData \<Rightarrow> tool_result \<times> UserData \<times> firebase" where
  "confirm_order fb new_id now ud =
     (if \<not> (customer_name ud \<noteq> [] \<and> customer_phone ud \<noteq> [] \<and> current_order ud \<noteq> [])
      then (Advisory ''I just need to get your name and phone number to complete this order.'',
            ud, fb)
      else
        (case make_order_items (current_order ud) of
           Inl e \<Rightarrow>
             (Advisory ''Oops, something went wrong on our end. Let me try that again for you.'',
              ud, fb)
         | Inr its \<Rightarrow>
             (let order = CustomerOrder_init new_id (customer_phone ud) (customer_name ud) its
                            now ''pending'' (payment_method ud) (call_id ud) []
                            (special_instructions ud);
                  (ok, fb') = create_order fb order
              in (Advisory ''Perfect! Your order is all set. We'll have it ready for you soon!'',
                  ud, fb'))))"

text \<open>
  \<^verbatim>\<open>ConfirmationAgent.confirm_reservation\<close>. Nothing between the completeness test and
  the reply can raise: \<^verbatim>\<open>save_reservation\<close> handles its own exceptions and returns a
  truth value, which is not looked at.
\<close>

definition confirm_reservation ::
    "firebase \<Rightarrow> string \<Rightarrow> int \<Rightarrow> UserData \<Rightarrow> tool_result \<times> UserData \<times> firebase" where
  "confirm_reservation fb new_id now ud =
     (if \<not> (customer_name ud \<noteq> [] \<and> customer_phone ud \<noteq> [] \<and> reservation_date ud \<noteq> []
             \<and> reservation_time ud \<noteq> [] \<and> party_size ud > 0)
      then (Advisory ''I just need a few more details to get your table reserved.'', ud, fb)
      else
        (let (ok, fb') = save_reservation fb new_id now ud
         in (Advisory ''Great! Your table is reserved. We're looking forward to seeing you!'',
             ud, fb')))"

text \<open>
  \<^verbatim>\<open>ConfirmationAgent.request_correction\<close>. The dictionary \<^verbatim>\<open>field_mapping\<close> is an
  association list. \<^verbatim>\<open>setattr\<close> on the five string attributes is \<open>setattr_str\<close>. The
  built-in conversion \<^verbatim>\<open>int(new_value)\<close> is the parameter \<open>int_of_str\<close>, with \<open>None\<close>
  where the built-in raises \<^verbatim>\<open>ValueError\<close>; the method has no handler, so the exception
  leaves it (\<open>Inl\<close>).
\<close>

definition field_mapping :: "(string \<times> string) list" where
  "field_mapping =
     [(''name'', ''customer_name''), (''phone'', ''customer_phone''),
      (''email'', ''customer_email''), (''date'', ''reservation_date''),
      (''time'', ''reservation_time''), (''party_size'', ''party_size'')]"

definition setattr_str :: "UserData \<Rightarrow> string \<Rightarrow> string \<Rightarrow> UserData" where
  "setattr_str ud attr_name v =
     (if attr_name = ''customer_name'' then ud\<lparr>customer_name := v\<rparr>
      else if attr_name = ''customer_phone'' then ud\<lparr>customer_phone := v\<rparr>
      else if attr_name = ''customer_email'' then ud\<lparr>customer_email := v\<rparr>
      else if attr_name = ''reservation_date'' then ud\<lparr>reservation_date := v\<rparr>
      else if attr_name = ''reservation_time'' then ud\<lparr>reservation_time := v\<rparr>
      else ud)"

definition request_correction ::
    "(string \<Rightarrow> int option) \<Rightarrow> UserData \<Rightarrow> string \<Rightarrow> string
       \<Rightarrow> py_error + (tool_result \<times> UserData)" where
  "request_correction int_of_str ud field_name new_value =
     (case map_of field_mapping field_name of
        Some attr_name \<Rightarrow>
          if field_name = ''party_size''
          then (case int_of_str new_value of
                  None \<Rightarrow> Inl ValueError
                | Some n \<Rightarrow>
                    Inr (Advisory (''Got it, changed to '' @ new_value
                                     @ ''. Does everything look right now?''),
                         ud\<lparr>party_size := n\<rparr>))
          else Inr (Advisory (''Got it, changed to '' @ new_value
                                @ ''. Does everything look right now?''),
                    setattr_str ud attr_name new_value)
      | None \<Rightarrow>
          Inr (Advisory (''Just let me know what you'd like to change - ''
                           @ ''your name, phone, date, time, or party size.''),
               ud))"

text \<open>
  A conversion for evaluating \<open>request_correction\<close>: the value of a non-empty string of
  decimal digits, \<open>None\<close> for any other string. (The built-in accepts more, a sign and
  surrounding blanks among them; no string made of letters is accepted by either.)
\<close>

definition decimal_digit :: "char \<Rightarrow> bool" where
  "decimal_digit c = (c \<in> set ''0123456789'')"

definition digit_value :: "char \<Rightarrow> int" where
  "digit_value c = int (of_char c) - 48"

definition int_of_digits :: "string \<Rightarrow> int option" where
  "int_of_digits s =
     (if s \<noteq> [] \<and> list_all decimal_digit s
      then Some (foldl (\<lambda>acc c. 10 * acc + digit_value c) 0 s)
      else None)"

section \<open>Sample data\<close>

text \<open>
  A plain message is a message whose role is not \<^verbatim>\<open>system\<close>: an entry that
  \<open>valid_item\<close> accepts whatever the flags.
\<close>

definition plain_message :: "chat_item \<Rightarrow> bool" where
  "plain_message entry = (item_type entry = message \<and> item_role entry \<noteq> ''system'')"

definition user_message :: "string \<Rightarrow> chat_item" where
  "user_message i =
     \<lparr>item_id = i, item_type = message, item_role = ''user'', item_content = ''hello''\<rparr>"

definition call_item :: "string \<Rightarrow> chat_item" where
  "call_item i =
     \<lparr>item_id = i, item_type = function_call, item_role = [], item_content = ''add_item''\<rparr>"

definition output_item :: "string \<Rightarrow> chat_item" where
  "output_item i =
     \<lparr>item_id = i, item_type = function_call_output, item_role = [], item_content = ''ok''\<rparr>"

definition ten_messages :: "chat_item list" where
  "ten_messages =
     map user_message [''m0'', ''m1'', ''m2'', ''m3'', ''m4'', ''m5'', ''m6'', ''m7'', ''m8'', ''m9'']"

text \<open>A session with a complete order, and one with a complete reservation.\<close>

definition order_session :: UserData where
  "order_session =
     UserData_default\<lparr>customer_name := ''Sam'', customer_phone := ''+15551234567'',
                      current_order := [\<lparr>entry_item = ''Coffee'', entry_quantity = 1\<rparr>]\<rparr>"

definition reservation_session :: UserData where
  "reservation_session =
     UserData_default\<lparr>customer_name := ''Sam'', customer_phone := ''+15551234567'',
                      reservation_date := ''2025-06-01'', reservation_time := ''19:00'',
                      party_size := 4\<rparr>"

text \<open>An empty store whose menu prices a coffee at 3.50, reachable and unreachable.\<close>

definition store_up :: firebase where
  "store_up = \<lparr>orders = [], reservations = [], menu_items = [(''Coffee'', 7 / 2)],
               writes_succeed = True\<rparr>"

definition store_down :: firebase where
  "store_down = \<lparr>orders = [], reservations = [], menu_items = [(''Coffee'', 7 / 2)],
                 writes_succeed = False\<rparr>"

section \<open>Properties of the transcript manager\<close>

lemma remove_orphans_dropWhile: "remove_orphans xs = dropWhile is_function_item xs"
  by (induction xs) simp_all

lemma remove_orphans_head:
  "remove_orphans xs = y # ys \<Longrightarrow> \<not> is_function_item y"
  by (induction xs) (auto split: if_splits)

lemma remove_orphans_plain:
  "\<forall>x\<in>set xs. plain_message x \<Longrightarrow> remove_orphans xs = xs"
  by (cases xs) (auto simp: plain_message_def is_function_item_def)

lemma plain_message_valid: "plain_message x \<Longrightarrow> valid_item ks kf x"
  by (simp add: plain_message_def valid_item_def)

text \<open>
  When every inspected item passes the filter and the accumulator is still short of the
  bound, the loop appends items until the bound is reached or the input ends.
\<close>

lemma collect_items_all_valid:
  "\<forall>x\<in>set xs. valid_item ks kf x \<Longrightarrow> int (length acc) < n \<Longrightarrow>
   collect_items n ks kf xs acc = acc @ take (nat n - length acc) xs"
proof (induction xs arbitrary: acc)
  case Nil
  then show ?case by simp
next
  case (Cons x xs)
  have v: "valid_item ks kf x" using Cons.prems(1) by simp
  show ?case
  proof (cases "int (length (acc @ [x])) \<ge> n")
    case True
    with Cons.prems(2) have "nat n - length acc = 1" by simp
    with True v show ?thesis by simp
  next
    case False
    then have lt: "int (length (acc @ [x])) < n" by simp
    have "collect_items n ks kf (x # xs) acc = collect_items n ks kf xs (acc @ [x])"
      using v False by simp
    also have "\<dots> = (acc @ [x]) @ take (nat n - length (acc @ [x])) xs"
      using Cons.IH [of "acc @ [x]"] Cons.prems(1) lt by simp
    also have "\<dots> = acc @ take (nat n - length acc) (x # xs)"
    proof -
      from lt have "nat n - length acc = Suc (nat n - length (acc @ [x]))" by simp
      then show ?thesis by simp
    qed
    finally show ?thesis .
  qed
qed

lemma truncate_chat_ctx_plain:
  assumes "\<forall>x\<in>set items. plain_message x" and "0 < n"
  shows "truncate_chat_ctx items n ks kf = drop (length items - nat n) items"
proof -
  have "\<forall>x\<in>set (rev items). valid_item ks kf x"
    using assms(1) by (simp add: plain_message_valid)
  then have "collect_items n ks kf (rev items) [] = take (nat n) (rev items)"
    using collect_items_all_valid [of "rev items" ks kf "[]" n] assms(2) by simp
  then have w: "retained_window items n ks kf = drop (length items - nat n) items"
    by (simp add: retained_window_def rev_take)
  have "\<forall>x\<in>set (drop (length items - nat n) items). plain_message x"
    using assms(1) by (meson in_set_dropD)
  then show ?thesis
    by (simp add: truncate_chat_ctx_def w remove_orphans_plain)
qed

text \<open>
  Claim C5. Whatever the transcript and whatever the values of
  \<^verbatim>\<open>keep_last_n_messages\<close>, \<^verbatim>\<open>keep_system_message\<close> and \<^verbatim>\<open>keep_function_call\<close>, the list
  \<^verbatim>\<open>_truncate_chat_ctx\<close> returns is the retained window without its leading function-call
  and function-call-output items, and so is either empty or begins with an item that is
  neither.
\<close>

theorem truncate_chat_ctx_no_leading_function_item:
  "truncate_chat_ctx items n ks kf = dropWhile is_function_item (retained_window items n ks kf)
   \<and> (case truncate_chat_ctx items n ks kf of
         [] \<Rightarrow> True
       | first # rest \<Rightarrow> \<not> is_function_item first)"
proof
  show "truncate_chat_ctx items n ks kf
          = dropWhile is_function_item (retained_window items n ks kf)"
    by (simp add: truncate_chat_ctx_def remove_orphans_dropWhile)
  show "case truncate_chat_ctx items n ks kf of
          [] \<Rightarrow> True
        | first # rest \<Rightarrow> \<not> is_function_item first"
    by (auto simp: truncate_chat_ctx_def split: list.split dest: remove_orphans_head)
qed

text \<open>
  Two runs with function items kept: a window that starts inside a tool exchange loses
  its leading output item, and a window made of function items only comes back empty.
\<close>

theorem truncate_chat_ctx_no_leading_function_item_witness:
  "retained_window [user_message ''a'', call_item ''b'', output_item ''c'', user_message ''d'']
      2 False True = [output_item ''c'', user_message ''d'']
   \<and> truncate_chat_ctx [user_message ''a'', call_item ''b'', output_item ''c'', user_message ''d'']
      2 False True = [user_message ''d'']
   \<and> retained_window [call_item ''b'', output_item ''c''] 6 False True
      = [call_item ''b'', output_item ''c'']
   \<and> truncate_chat_ctx [call_item ''b'', output_item ''c''] 6 False True = []"
  using truncate_chat_ctx_no_leading_function_item
          [of "[user_message ''a'', call_item ''b'', output_item ''c'', user_message ''d'']"
              2 False True]
        truncate_chat_ctx_no_leading_function_item
          [of "[call_item ''b'', output_item ''c'']" 6 False True]
  by (simp add: retained_window_def valid_item_def is_function_item_def
        user_message_def call_item_def output_item_def)

text \<open>
  Claim C6. On a transcript of ten plain messages (no system message, no function item),
  \<^verbatim>\<open>_truncate_chat_ctx\<close> with \<^verbatim>\<open>keep_last_n_messages = 6\<close> returns exactly six entries:
  the last six of the input, in their order. This holds for either value of the two flags.
\<close>

theorem truncate_chat_ctx_ten_plain_keep_six:
  assumes "length items = 10" and "\<forall>x\<in>set items. plain_message x"
  shows "truncate_chat_ctx items 6 ks kf = drop 4 items
         \<and> length (truncate_chat_ctx items 6 ks kf) = 6"
proof -
  have "truncate_chat_ctx items 6 ks kf = drop (length items - nat 6) items"
    using assms(2) by (rule truncate_chat_ctx_plain) simp
  with assms(1) show ?thesis by simp
qed

theorem truncate_chat_ctx_ten_plain_keep_six_witness:
  "length ten_messages = 10
   \<and> list_all plain_message ten_messages
   \<and> truncate_chat_ctx ten_messages 6 False False
       = map user_message [''m4'', ''m5'', ''m6'', ''m7'', ''m8'', ''m9'']"
proof -
  have len: "length ten_messages = 10"
    by (simp add: ten_messages_def)
  have plain: "\<forall>x\<in>set ten_messages. plain_message x"
    by (simp add: ten_messages_def plain_message_def user_message_def)
  have "truncate_chat_ctx ten_messages 6 False False = drop 4 ten_messages"
    using truncate_chat_ctx_ten_plain_keep_six [OF len plain, of False False] by simp
  then show ?thesis
    using len plain by (simp add: ten_messages_def list_all_iff)
qed

text \<open>
  Claim C7, as the source has it. The merge keeps the target as a prefix, entry for entry,
  and appends the source entries whose identity does not occur in the target, in source
  order. The result is free of duplicate identities when the target and the source each
  are; an identity that occurs twice in the source and not in the target is appended twice.
\<close>

theorem merge_items_appends_unseen_entries:
  "take (length target) (merge_items target source) = target
   \<and> drop (length target) (merge_items target source)
       = filter (\<lambda>entry. item_id entry \<notin> item_id ` set target) source
   \<and> (distinct (map item_id target) \<and> distinct (map item_id source)
        \<longrightarrow> distinct (map item_id (merge_items target source)))"
proof -
  let ?new = "filter (\<lambda>entry. item_id entry \<notin> set (map item_id target)) source"
  have m: "merge_items target source = target @ ?new"
    by (simp add: merge_items_def)
  have disj: "set (map item_id target) \<inter> set (map item_id ?new) = {}"
  proof (rule ccontr)
    assume "set (map item_id target) \<inter> set (map item_id ?new) \<noteq> {}"
    then obtain i where i1: "i \<in> set (map item_id target)"
      and i2: "i \<in> set (map item_id ?new)"
      by blast
    from i2 obtain x where "x \<in> set ?new" and "item_id x = i"
      by (metis (no_types, lifting) in_set_conv_nth length_map nth_map nth_mem)
    then have "i \<notin> set (map item_id target)" by simp
    with i1 show False by contradiction
  qed
  have d: "distinct (map item_id ?new)" if "distinct (map item_id source)"
    using that by (rule distinct_map_filter)
  show ?thesis
    using m disj d by simp
qed

theorem merge_items_appends_unseen_entries_witness:
  "distinct (map item_id [user_message ''a'', user_message ''b''])
   \<and> distinct (map item_id [user_message ''b'', user_message ''c'', user_message ''d''])
   \<and> merge_items [user_message ''a'', user_message ''b'']
        [user_message ''b'', user_message ''c'', user_message ''d'']
       = [user_message ''a'', user_message ''b'', user_message ''c'', user_message ''d'']
   \<and> distinct (map item_id (merge_items [user_message ''a'', user_message ''b'']
        [user_message ''b'', user_message ''c'', user_message ''d'']))"
  using merge_items_appends_unseen_entries
          [of "[user_message ''a'', user_message ''b'']"
              "[user_message ''b'', user_message ''c'', user_message ''d'']"]
  by (simp add: merge_items_def user_message_def)

text \<open>
  The claim as stated, without the condition on the source: merging a source that holds
  the same identity twice into an empty target yields that identity twice.
\<close>

theorem merge_items_duplicate_source_counterexample:
  "merge_items [] [user_message ''a'', user_message ''a'']
     = [user_message ''a'', user_message ''a'']
   \<and> \<not> distinct (map item_id (merge_items [] [user_message ''a'', user_message ''a'']))"
  by (simp add: merge_items_def)

section \<open>Properties of the session state\<close>

lemma apply_mutation_order_total: "order_total (apply_mutation ud m) = order_total ud"
  by (cases m) (simp_all add: add_item_def set_payment_method_def Let_def)

lemma apply_mutations_order_total: "order_total (apply_mutations ud ms) = order_total ud"
  by (induction ms arbitrary: ud) (simp_all add: apply_mutation_order_total)

lemma draft_total_zero: "draft_total ud = 0"
  by (simp add: draft_total_def entry_unit_price_def)

text \<open>
  Claim C1, as the source has it. \<^verbatim>\<open>order_total\<close> is a stored field that neither
  \<^verbatim>\<open>add_item\<close> nor \<^verbatim>\<open>set_payment_method\<close> writes: after any sequence of these mutations
  it has the value it had before. For a session whose \<^verbatim>\<open>order_total\<close> is 0, as in a
  newly created one, it therefore equals the sum of unit price times quantity over the
  draft after every sequence of mutations, the unit price of a draft line being 0.
\<close>

theorem order_total_kept_by_draft_mutations:
  "order_total (apply_mutations ud ms) = order_total ud
   \<and> (order_total ud = 0 \<longrightarrow>
        order_total (apply_mutations ud ms) = draft_total (apply_mutations ud ms))"
  by (simp add: apply_mutations_order_total draft_total_zero)

theorem order_total_kept_by_draft_mutations_witness:
  "order_total UserData_default = 0
   \<and> current_order (apply_mutations UserData_default
                      [AddItem ''Coffee'' 2, SetPaymentMethod ''card''])
       = [\<lparr>entry_item = ''Coffee'', entry_quantity = 2\<rparr>]
   \<and> order_total (apply_mutations UserData_default
                    [AddItem ''Coffee'' 2, SetPaymentMethod ''card''])
       = draft_total (apply_mutations UserData_default
                        [AddItem ''Coffee'' 2, SetPaymentMethod ''card''])"
  using order_total_kept_by_draft_mutations
          [of UserData_default "[AddItem ''Coffee'' 2, SetPaymentMethod ''card'']"]
  by (simp add: UserData_default_def add_item_def set_payment_method_def Let_def)

text \<open>
  The claim as stated, for every session state: a session whose stored total is 5 keeps
  that total when a line is added, while the sum over its draft is 0.
\<close>

theorem order_total_not_recomputed_counterexample:
  "order_total (apply_mutations (UserData_default\<lparr>order_total := 5\<rparr>) [AddItem ''Coffee'' 1])
     = 5
   \<and> draft_total (apply_mutations (UserData_default\<lparr>order_total := 5\<rparr>) [AddItem ''Coffee'' 1])
     = 0"
  by (simp add: add_item_def Let_def UserData_default_def draft_total_def entry_unit_price_def)

lemma update_customer_phone_phone:
  "customer_phone (update_customer_phone isdigit lookup ud phone)
     = clean_phone_number isdigit phone"
  by (simp add: update_customer_phone_def Let_def split: option.splits)

text \<open>
  Claim C2, as the source has it. \<^verbatim>\<open>update_customer_phone\<close> strips every character
  that \<^verbatim>\<open>str.isdigit\<close> does not accept; ten remaining digits are stored behind \<^verbatim>\<open>+1\<close>;
  eleven remaining digits that begin with 1 are stored behind \<^verbatim>\<open>+\<close>; in every other
  case the stripped digit string is stored, which is the input itself exactly when the
  input consists of digits only. The customer lookup that follows does not change the
  stored phone. This holds whichever characters \<^verbatim>\<open>str.isdigit\<close> accepts.
\<close>

theorem update_customer_phone_stores_cleaned_number:
  "(length (filter isdigit phone) = 10 \<longrightarrow>
      customer_phone (update_customer_phone isdigit lookup ud phone)
        = ''+1'' @ filter isdigit phone)
   \<and> (length (filter isdigit phone) = 11 \<and> hd (filter isdigit phone) = CHR ''1'' \<longrightarrow>
      customer_phone (update_customer_phone isdigit lookup ud phone)
        = ''+'' @ filter isdigit phone)
   \<and> (\<not> length (filter isdigit phone) = 10
        \<and> \<not> (length (filter isdigit phone) = 11 \<and> hd (filter isdigit phone) = CHR ''1'') \<longrightarrow>
      customer_phone (update_customer_phone isdigit lookup ud phone) = filter isdigit phone
      \<and> (customer_phone (update_customer_phone isdigit lookup ud phone) = phone
           \<longleftrightarrow> list_all isdigit phone))"
proof -
  have hd1: "take 1 ds = ''1'' \<longleftrightarrow> hd ds = CHR ''1''" if "length ds = 11" for ds :: string
    using that by (cases ds) auto
  have unchanged: "filter isdigit phone = phone \<longleftrightarrow> list_all isdigit phone"
    by (simp add: filter_id_conv list_all_iff)
  show ?thesis
    using hd1 [of "filter isdigit phone"] unchanged
    by (auto simp: update_customer_phone_phone clean_phone_number_def Let_def)
qed

text \<open>
  Five inputs under \<open>str_isdigit\<close>: ten digits with punctuation, eleven digits beginning
  with 1, seven digits with a hyphen, seven digits alone, and nine decimal digits followed
  by the superscript digit U+00B2, which is kept and counted as the tenth.
\<close>

theorem update_customer_phone_stores_cleaned_number_witness:
  "customer_phone (update_customer_phone str_isdigit Map.empty UserData_default
                     ''555-123-4567'')
     = ''+15551234567''
   \<and> customer_phone (update_customer_phone str_isdigit Map.empty UserData_default
                       ''1 (555) 123-4567'')
     = ''+15551234567''
   \<and> customer_phone (update_customer_phone str_isdigit Map.empty UserData_default
                       ''555-1234'')
     = ''5551234''
   \<and> customer_phone (update_customer_phone str_isdigit Map.empty UserData_default
                       ''5551234'')
     = ''5551234''
   \<and> customer_phone (update_customer_phone str_isdigit Map.empty UserData_default
                       (''555123456'' @ [CHR 0xB2]))
     = ''+1555123456'' @ [CHR 0xB2]"
  using update_customer_phone_stores_cleaned_number
          [of str_isdigit "''555-123-4567''" Map.empty UserData_default]
        update_customer_phone_stores_cleaned_number
          [of str_isdigit "''1 (555) 123-4567''" Map.empty UserData_default]
        update_customer_phone_stores_cleaned_number
          [of str_isdigit "''555-1234''" Map.empty UserData_default]
        update_customer_phone_stores_cleaned_number
          [of str_isdigit "''5551234''" Map.empty UserData_default]
        update_customer_phone_stores_cleaned_number
          [of str_isdigit "''555123456'' @ [CHR 0xB2]" Map.empty UserData_default]
  by (simp add: str_isdigit_def)

text \<open>
  The claim as stated, "any other shape of input is stored unchanged": a seven-digit
  number written with a hyphen is stored without the hyphen.
\<close>

theorem update_customer_phone_other_shape_counterexample:
  "customer_phone (update_customer_phone str_isdigit Map.empty UserData_default ''555-1234'')
     = ''5551234''
   \<and> customer_phone (update_customer_phone str_isdigit Map.empty UserData_default ''555-1234'')
       \<noteq> ''555-1234''"
  by (simp add: update_customer_phone_phone clean_phone_number_def str_isdigit_def)

text \<open>
  The normalisation of the SIP call handler, for comparison: there the same input comes
  back as it was given.
\<close>

lemma normalize_phone_other_shape:
  "normalize_phone str_isdigit ''555-1234'' = ''555-1234''
   \<and> clean_phone_number str_isdigit ''555-1234'' = ''5551234''"
  by (simp add: normalize_phone_def clean_phone_number_def str_isdigit_def)

section \<open>Properties of the reservation and confirmation tools\<close>

lemma make_order_items_raises: "entries \<noteq> [] \<Longrightarrow> make_order_items entries = Inl TypeError"
  by (cases entries) (simp_all add: OrderItem_init_def)

text \<open>
  Whatever the session, \<^verbatim>\<open>confirm_order\<close> leaves the store as it found it: either the
  completeness test refuses, or the draft is not empty and the first \<^verbatim>\<open>OrderItem\<close>
  cannot be constructed.
\<close>

lemma confirm_order_store_unchanged: "snd (snd (confirm_order fb new_id now ud)) = fb"
  by (simp add: confirm_order_def make_order_items_raises)

text \<open>
  An order whose items all carry the unit price 0 has the total 0, whatever the
  quantities.
\<close>

lemma zero_priced_total:
  "\<forall>oi\<in>set its. unit_price oi = 0 \<Longrightarrow>
   total_amount (CustomerOrder_init i p n its now st m c a s) = 0"
  by (induction its) (simp_all add: CustomerOrder_init_def total_price_def)

text \<open>
  On a complete reservation the reply of \<^verbatim>\<open>confirm_reservation\<close> is the same for every
  store, reachable or not.
\<close>

lemma confirm_reservation_reply_when_complete:
  assumes "customer_name ud \<noteq> []" and "customer_phone ud \<noteq> []"
    and "reservation_date ud \<noteq> []" and "reservation_time ud \<noteq> []" and "party_size ud > 0"
  shows "fst (confirm_reservation fb new_id now ud)
           = Advisory ''Great! Your table is reserved. We're looking forward to seeing you!''"
  using assms by (simp add: confirm_reservation_def split: prod.splits)

text \<open>
  Claim C8, as the source has it. \<^verbatim>\<open>set_reservation_details\<close> with a party size that is
  not greater than 0 stores the date, the time and that party size like any other, and
  returns \<^verbatim>\<open>None\<close>: no advisory. The size is rejected later, by the completeness test of
  \<^verbatim>\<open>ConfirmationAgent.confirm_reservation\<close>, which refuses and writes nothing.
\<close>

theorem set_reservation_details_stores_nonpositive_size:
  assumes "new_party_size \<le> 0"
  shows "set_reservation_details ud date time new_party_size
           = (NoOp, ud\<lparr>reservation_date := date, reservation_time := time,
                       party_size := new_party_size\<rparr>)
         \<and> confirm_reservation fb new_id now
             (snd (set_reservation_details ud date time new_party_size))
           = (Advisory ''I just need a few more details to get your table reserved.'',
              snd (set_reservation_details ud date time new_party_size), fb)"
  using assms
  by (simp add: set_reservation_details_def ReservationAgent_handoff_if_done_def
        confirm_reservation_def Let_def)

theorem set_reservation_details_stores_nonpositive_size_witness:
  "(0::int) \<le> 0
   \<and> set_reservation_details reservation_session ''2025-07-01'' ''20:00'' 0
       = (NoOp, reservation_session\<lparr>reservation_date := ''2025-07-01'',
                  reservation_time := ''20:00'', party_size := 0\<rparr>)"
  using set_reservation_details_stores_nonpositive_size
          [of 0 reservation_session "''2025-07-01''" "''20:00''"]
  by simp

text \<open>
  The claim as stated, an advisory and no mutation: on a session holding a reservation
  for four, a call with party size 0 returns no advisory and overwrites all three fields.
\<close>

theorem set_reservation_details_zero_counterexample:
  "party_size reservation_session = 4
   \<and> reservation_date reservation_session = ''2025-06-01''
   \<and> fst (set_reservation_details reservation_session ''2025-07-01'' ''20:00'' 0) = NoOp
   \<and> party_size (snd (set_reservation_details reservation_session ''2025-07-01'' ''20:00'' 0))
       = 0
   \<and> reservation_date
        (snd (set_reservation_details reservation_session ''2025-07-01'' ''20:00'' 0))
       = ''2025-07-01''"
  by (simp add: set_reservation_details_def ReservationAgent_handoff_if_done_def
        reservation_session_def UserData_default_def Let_def)

text \<open>
  Claim C4. When the customer name, the customer phone or the draft order is missing,
  \<^verbatim>\<open>confirm_order\<close> answers with its refusal text, which is a string and so no handoff:
  the active role is still the confirmation agent. The session state and the store come
  back as they were; no order is written.
\<close>

theorem confirm_order_refuses_incomplete:
  assumes "customer_name ud = [] \<or> customer_phone ud = [] \<or> current_order ud = []"
  shows "confirm_order fb new_id now ud
           = (Advisory ''I just need to get your name and phone number to complete this order.'',
              ud, fb)
         \<and> active_role_after ConfirmationAgent (fst (confirm_order fb new_id now ud))
           = ConfirmationAgent"
  using assms by (auto simp: confirm_order_def active_role_after_def)

theorem confirm_order_refuses_incomplete_witness:
  "customer_phone (order_session\<lparr>customer_phone := []\<rparr>) = []
   \<and> confirm_order store_up ''order-1'' 0 (order_session\<lparr>customer_phone := []\<rparr>)
       = (Advisory ''I just need to get your name and phone number to complete this order.'',
          order_session\<lparr>customer_phone := []\<rparr>, store_up)
   \<and> orders store_up = []"
  using confirm_order_refuses_incomplete
          [of "order_session\<lparr>customer_phone := []\<rparr>" store_up "''order-1''" 0]
  by (simp add: store_up_def)

text \<open>
  Claim C3, evaluated where the store is unreachable and the reservation is complete.
  \<^verbatim>\<open>save_reservation\<close> reports the failure by returning \<^verbatim>\<open>False\<close> and writes nothing;
  \<^verbatim>\<open>confirm_reservation\<close> does not look at that value and answers that the table is
  reserved.
\<close>

theorem confirm_reservation_ignores_failed_save:
  "save_reservation store_down ''res-1'' 0 reservation_session = (False, store_down)
   \<and> confirm_reservation store_down ''res-1'' 0 reservation_session
       = (Advisory ''Great! Your table is reserved. We're looking forward to seeing you!'',
          reservation_session, store_down)"
  by (simp add: save_reservation_def confirm_reservation_def store_down_def
        reservation_session_def UserData_default_def)

text \<open>
  Claim C9, evaluated on a complete order for one coffee against a reachable store whose
  menu prices the coffee at 3.50. The conversion passes the literal unit price 0 and does
  not read the menu; the constructor call lacks \<^verbatim>\<open>menu_item_name\<close> and raises, so that
  \<^verbatim>\<open>confirm_order\<close> answers with its apology and the store holds no order afterwards.
\<close>

theorem confirm_order_commits_no_priced_order:
  "map_of (menu_items store_up) ''Coffee'' = Some (7 / 2)
   \<and> make_order_items (current_order order_session) = Inl TypeError
   \<and> confirm_order store_up ''order-1'' 0 order_session
       = (Advisory ''Oops, something went wrong on our end. Let me try that again for you.'',
          order_session, store_up)
   \<and> orders store_up = []"
  by (simp add: confirm_order_def OrderItem_init_def store_up_def order_session_def
        UserData_default_def)

lemma map_of_field_mapping_None:
  "field_name \<notin> {''name'', ''phone'', ''email'', ''date'', ''time'', ''party_size''}
   \<Longrightarrow> map_of field_mapping field_name = None"
  by (simp add: field_mapping_def)

text \<open>
  Claim C10. \<^verbatim>\<open>request_correction\<close> has three behaviours. For the field
  \<^verbatim>\<open>party_size\<close> and a value the integer conversion rejects, the conversion's
  \<^verbatim>\<open>ValueError\<close> leaves the method: there is no reply. For each of the fields
  \<^verbatim>\<open>name\<close>, \<^verbatim>\<open>phone\<close>, \<^verbatim>\<open>email\<close>, \<^verbatim>\<open>date\<close> and \<^verbatim>\<open>time\<close> the value is stored as given in
  the attribute the field maps to, and the reply quotes it. For any field name outside
  the six, the state is returned as it was, with the reply that names what can be changed.
\<close>

theorem request_correction_cases:
  "(int_of_str v = None \<longrightarrow>
      request_correction int_of_str ud ''party_size'' v = Inl ValueError)
   \<and> request_correction int_of_str ud ''name'' v
       = Inr (Advisory (''Got it, changed to '' @ v @ ''. Does everything look right now?''),
              ud\<lparr>customer_name := v\<rparr>)
   \<and> request_correction int_of_str ud ''phone'' v
       = Inr (Advisory (''Got it, changed to '' @ v @ ''. Does everything look right now?''),
              ud\<lparr>customer_phone := v\<rparr>)
   \<and> request_correction int_of_str ud ''email'' v
       = Inr (Advisory (''Got it, changed to '' @ v @ ''. Does everything look right now?''),
              ud\<lparr>customer_email := v\<rparr>)
   \<and> request_correction int_of_str ud ''date'' v
       = Inr (Advisory (''Got it, changed to '' @ v @ ''. Does everything look right now?''),
              ud\<lparr>reservation_date := v\<rparr>)
   \<and> request_correction int_of_str ud ''time'' v
       = Inr (Advisory (''Got it, changed to '' @ v @ ''. Does everything look right now?''),
              ud\<lparr>reservation_time := v\<rparr>)
   \<and> (field_name \<notin> {''name'', ''phone'', ''email'', ''date'', ''time'', ''party_size''} \<longrightarrow>
        request_correction int_of_str ud field_name v
          = Inr (Advisory (''Just let me know what you'd like to change - ''
                             @ ''your name, phone, date, time, or party size.''),
                 ud))"
proof -
  have party: "request_correction int_of_str ud ''party_size'' v = Inl ValueError"
    if "int_of_str v = None"
    using that by (simp add: request_correction_def field_mapping_def)
  have other: "request_correction int_of_str ud field_name v
          = Inr (Advisory (''Just let me know what you'd like to change - ''
                             @ ''your name, phone, date, time, or party size.''),
                 ud)"
    if "field_name \<notin> {''name'', ''phone'', ''email'', ''date'', ''time'', ''party_size''}"
    using map_of_field_mapping_None [OF that] by (simp add: request_correction_def)
  show ?thesis
    using party other
    by (simp add: request_correction_def field_mapping_def setattr_str_def)
qed

theorem request_correction_cases_witness:
  "int_of_digits ''four'' = None
   \<and> request_correction int_of_digits reservation_session ''party_size'' ''four''
       = Inl ValueError
   \<and> request_correction int_of_digits reservation_session ''time'' ''20:30''
       = Inr (Advisory ''Got it, changed to 20:30. Does everything look right now?'',
              reservation_session\<lparr>reservation_time := ''20:30''\<rparr>)
   \<and> ''card'' \<notin> {''name'', ''phone'', ''email'', ''date'', ''time'', ''party_size''}
   \<and> request_correction int_of_digits reservation_session ''card'' ''4111''
       = Inr (Advisory
                ''Just let me know what you'd like to change - your name, phone, date, time, or party size.'',
              reservation_session)"
proof -
  have none: "int_of_digits ''four'' = None"
    by (simp add: int_of_digits_def decimal_digit_def)
  have out: "''card'' \<notin> {''name'', ''phone'', ''email'', ''date'', ''time'', ''party_size''}"
    by simp
  show ?thesis
    using none out
      request_correction_cases [of int_of_digits "''four''" reservation_session "''card''"]
      request_correction_cases [of int_of_digits "''20:30''" reservation_session "''card''"]
      request_correction_cases [of int_of_digits "''4111''" reservation_session "''card''"]
    by simp
qed

end
